theory Spec2Isabelle
  imports Main "HOL-Library.AList"
begin

section \<open>Data model of django\_lockmin.admin\<close>

text \<open>
  The exceptions the mixin raises itself (\<open>ValueError\<close>, \<open>AssertionError\<close>) and the
  ones raised by the Python and Django operations it calls.
\<close>

datatype error =
    ValueError
  | AttributeError
  | AssertionError
  | TypeError
  | FieldError
  | DatabaseError
  | DoesNotExist
  | MultipleObjectsReturned
  | Http404

text \<open>
  A row of \<open>django.contrib.auth.models.User\<close>. \<open>user_perms\<close> is the permission set
  that \<open>has_perm\<close> answers from: on the object carried by a request it is the copy
  cached on that object, on a row of the table it is the stored one.
\<close>

record User =
  user_id :: int
  first_name :: string
  last_name :: string
  username :: string
  user_perms :: "string list"

text \<open>Python values held by the attributes of a model instance.\<close>

datatype val = VNone | VInt int | VStr string | VUser User

text \<open>
  An instance of \<open>self.model\<close>: its primary key and its attributes by name, in
  column order.
\<close>

record Model =
  pk :: int
  attrs :: "(string \<times> val) list"

record HttpRequest =
  req_user :: "User option"

text \<open>
  What \<open>getattr(self.model, name)\<close> finds on the model class: the descriptor of a
  field, which has \<open>.field.related_model\<close> (\<open>None\<close> unless the field is a relation),
  or some other attribute (a method, a manager, a property), which has no \<open>.field\<close>.
\<close>

datatype related = UserTable | OtherTable string

datatype class_attr = FieldAttr "related option" | OtherAttr

record PermissionType =
  codename :: string
  description :: string

text \<open>
  The attributes of an \<open>AdminLockingMixin\<close> (sub)class, with the part of
  \<open>self.model\<close> and \<open>self.opts\<close> that the mixin reads.
\<close>

record Admin =
  allow_view_permissions :: bool
  model_reference_key :: string
  max_records_lockable :: int
  max_records_warning_msg :: string
  locked_error_msg :: string
  user_field :: string
  locking_help :: "string option"
  lock_record_action_name :: string
  unlock_record_action_name :: string
  unlock_record_action_permission :: "PermissionType option"
  list_display :: "string list"
  actions :: "string list"
  model_attrs :: "(string \<times> class_attr) list"
  app_label :: string
  model_name :: string

datatype level = INFO | SUCCESS | WARNING | ERROR

record Permission =
  perm_codename :: string
  perm_name :: string
  perm_content_type :: "string \<times> string"

text \<open>
  Everything the mixin reads or writes outside its own attributes: the table of
  \<open>self.model\<close>, the \<open>User\<close> and \<open>Permission\<close> tables, the messages flashed to the
  user, the warnings logged, and the function attributes that \<open>__init__\<close> and
  \<open>_set_unlock_permission\<close> set on the class.
\<close>

record State =
  objects :: "Model list"
  auth_users :: "User list"
  permissions :: "Permission list"
  flashed :: "(level \<times> string) list"
  log_warnings :: "string list"
  allowed_permissions :: "string list option"
  unlock_short_description :: "string option"
  lock_short_description :: "string option"

text \<open>
  A URL is a literal path or the result of \<open>reverse(name, args=[pk])\<close>. A response is
  a redirect or the change form, rendered editable or read-only.
\<close>

datatype url = Path string | Reverse string int

datatype response =
    HttpResponseRedirect url
  | TemplateResponse bool

section \<open>Python and Django primitives\<close>

text \<open>\<open>getattr(obj, name)\<close> on an instance.\<close>

definition getattr :: "Model \<Rightarrow> string \<Rightarrow> error + val" where
  "getattr obj name =
     (case map_of (attrs obj) name of None \<Rightarrow> Inl AttributeError | Some v \<Rightarrow> Inr v)"

definition setattr :: "Model \<Rightarrow> string \<Rightarrow> val \<Rightarrow> Model" where
  "setattr obj name v = obj\<lparr>attrs := AList.update name v (attrs obj)\<rparr>"

text \<open>Python truth of a value, as \<open>not user\<close> tests it.\<close>

fun truthy :: "val \<Rightarrow> bool" where
  "truthy VNone = False"
| "truthy (VInt i) = (i \<noteq> 0)"
| "truthy (VStr s) = (s \<noteq> [])"
| "truthy (VUser u) = True"

text \<open>\<open>user.id\<close>: only a \<open>User\<close> has the attribute.\<close>

fun id_of :: "val \<Rightarrow> error + int" where
  "id_of (VUser u) = Inr (user_id u)"
| "id_of v = Inl AttributeError"

text \<open>\<open>self.message_user(request, message, level)\<close>.\<close>

definition message_user :: "State \<Rightarrow> string \<Rightarrow> level \<Rightarrow> State" where
  "message_user st message lvl = st\<lparr>flashed := flashed st @ [(lvl, message)]\<rparr>"

text \<open>The names \<open>save(update_fields=...)\<close> accepts: the concrete fields of the model.\<close>

definition concrete_field :: "Admin \<Rightarrow> string \<Rightarrow> bool" where
  "concrete_field self name =
     (case map_of (model_attrs self) name of Some (FieldAttr rel) \<Rightarrow> True | _ \<Rightarrow> False)"

text \<open>
  \<open>inst.save(update_fields=[name])\<close>: Django raises \<open>ValueError\<close> when \<open>name\<close> is not
  a concrete field of the model, writes that one column of the row with the
  instance's primary key, and raises \<open>DatabaseError\<close> when no row was written.
\<close>

definition save :: "Admin \<Rightarrow> Model \<Rightarrow> string \<Rightarrow> Model list \<Rightarrow> error + Model list" where
  "save self inst name db =
     (if \<not> concrete_field self name then Inl ValueError
      else if pk inst \<notin> pk ` set db then Inl DatabaseError
      else Inr (map (\<lambda>r. if pk r = pk inst
                          then r\<lparr>attrs := AList.update name
                                 (case map_of (attrs inst) name of None \<Rightarrow> VNone | Some v \<Rightarrow> v)
                                 (attrs r)\<rparr>
                          else r) db))"

text \<open>\<open>.get()\<close> on the rows a query selects.\<close>

fun get_one :: "'a list \<Rightarrow> error + 'a" where
  "get_one [] = Inl DoesNotExist"
| "get_one [r] = Inr r"
| "get_one (r # r' # rs) = Inl MultipleObjectsReturned"

definition objects_get :: "Model list \<Rightarrow> int \<Rightarrow> error + Model" where
  "objects_get db object_id = get_one (filter (\<lambda>r. pk r = object_id) db)"

text \<open>
  The queryset handed to an admin action is the selection of the change list,
  \<open>queryset.filter(pk__in=selected)\<close>. It is lazy: each use reads the table as it is
  at that moment.
\<close>

type_synonym QuerySet = "int list"

definition rows :: "QuerySet \<Rightarrow> Model list \<Rightarrow> Model list" where
  "rows queryset db = filter (\<lambda>r. pk r \<in> set queryset) db"

text \<open>\<open>self.model.objects.filter(**{self.user_field: pk})\<close>.\<close>

definition held_by :: "Admin \<Rightarrow> int \<Rightarrow> Model \<Rightarrow> bool" where
  "held_by self upk r =
     (case map_of (attrs r) (user_field self) of
        Some (VUser u) \<Rightarrow> user_id u = upk
      | _ \<Rightarrow> False)"

text \<open>\<open>a.union(b)\<close> is SQL \<open>UNION\<close>: duplicate rows are dropped.\<close>

definition queryset_union :: "Model list \<Rightarrow> Model list \<Rightarrow> Model list" where
  "queryset_union a b = remdups (a @ b)"

text \<open>
  \<open>queryset.values_list(key, flat=True)\<close>: \<open>pk\<close> names the primary key, a foreign key
  yields the referenced id, an unknown name raises \<open>FieldError\<close>.
\<close>

definition value_of :: "string \<Rightarrow> Model \<Rightarrow> error + val" where
  "value_of key r =
     (if key = ''pk'' then Inr (VInt (pk r))
      else (case map_of (attrs r) key of
              None \<Rightarrow> Inl FieldError
            | Some (VUser u) \<Rightarrow> Inr (VInt (user_id u))
            | Some v \<Rightarrow> Inr v))"

fun values_list :: "string \<Rightarrow> Model list \<Rightarrow> error + val list" where
  "values_list key [] = Inr []"
| "values_list key (r # rs) =
     (case value_of key r of
        Inl e \<Rightarrow> Inl e
      | Inr v \<Rightarrow> (case values_list key rs of Inl e \<Rightarrow> Inl e | Inr vs \<Rightarrow> Inr (v # vs)))"

text \<open>\<open>sep.join(items)\<close>: every item must be a \<open>str\<close>, else \<open>TypeError\<close>.\<close>

fun str_join :: "string \<Rightarrow> string list \<Rightarrow> string" where
  "str_join sep [] = []"
| "str_join sep [x] = x"
| "str_join sep (x # y # ys) = x @ sep @ str_join sep (y # ys)"

fun strs :: "val list \<Rightarrow> error + string list" where
  "strs [] = Inr []"
| "strs (VStr s # vs) = (case strs vs of Inl e \<Rightarrow> Inl e | Inr ss \<Rightarrow> Inr (s # ss))"
| "strs (v # vs) = Inl TypeError"

definition join :: "string \<Rightarrow> val list \<Rightarrow> error + string" where
  "join sep items = (case strs items of Inl e \<Rightarrow> Inl e | Inr ss \<Rightarrow> Inr (str_join sep ss))"

text \<open>\<open>str(n)\<close> of an integer, as an f-string formats it.\<close>

fun digits :: "nat \<Rightarrow> string" where
  "digits n =
     (if n < 10 then [''0123456789'' ! n]
      else digits (n div 10) @ [''0123456789'' ! (n mod 10)])"

definition str_int :: "int \<Rightarrow> string" where
  "str_int i = (if i < 0 then CHR ''-'' # digits (nat (- i)) else digits (nat i))"

text \<open>\<open>get_permission_codename(action, opts)\<close> is \<open>"%s_%s" % (action, opts.model_name)\<close>.\<close>

definition get_permission_codename :: "string \<Rightarrow> Admin \<Rightarrow> string" where
  "get_permission_codename action self = action @ ''_'' @ model_name self"

text \<open>
  \<open>get_object_or_404(User, pk=...)\<close> reads the \<open>User\<close> table. \<open>user.has_perm(perm)\<close>
  answers from the permission set that the authentication backends resolve for the
  user object it is called on, here \<open>user_perms\<close> of that object.
\<close>

definition get_object_or_404 :: "User list \<Rightarrow> int \<Rightarrow> error + User" where
  "get_object_or_404 users upk =
     (case filter (\<lambda>u. user_id u = upk) users of
        [] \<Rightarrow> Inl Http404
      | [u] \<Rightarrow> Inr u
      | _ \<Rightarrow> Inl MultipleObjectsReturned)"

definition has_perm :: "User \<Rightarrow> string \<Rightarrow> bool" where
  "has_perm u perm = (perm \<in> set (user_perms u))"

section \<open>The lock engine\<close>

text \<open>
  \<^verbatim>\<open>
  def is_locked(self, request, obj):
      user: User = getattr(obj, self.user_field)
      assert request.user, "User must be logged in!"
      return user.id != request.user.id
  \<close>
\<close>

definition is_locked :: "Admin \<Rightarrow> HttpRequest \<Rightarrow> Model \<Rightarrow> error + bool" where
  "is_locked self request obj =
     (case getattr obj (user_field self) of
        Inl e \<Rightarrow> Inl e
      | Inr user \<Rightarrow>
          (case req_user request of
             None \<Rightarrow> Inl AssertionError
           | Some ru \<Rightarrow>
               (case id_of user of
                  Inl e \<Rightarrow> Inl e
                | Inr i \<Rightarrow> Inr (i \<noteq> user_id ru))))"

text \<open>
  \<^verbatim>\<open>
  def unlock_record(self, request, queryset):
      for manual_order_attempt in queryset:
          manual_order_attempt.user = None
          manual_order_attempt.save(update_fields=["user"])
      model_references = queryset.values_list(self.model_reference_key, flat=True)
      model_references_str = ", ".join(model_references)
      self.message_user(request, f"Successfully unlocked ...: {model_references_str}",
                        level=messages.SUCCESS)
      return None
  \<close>
  The loop stops at the first exception; the rows saved before it stay saved.
\<close>

fun unlock_loop :: "Admin \<Rightarrow> Model list \<Rightarrow> Model list \<Rightarrow> Model list \<times> error option" where
  "unlock_loop self [] db = (db, None)"
| "unlock_loop self (manual_order_attempt # rest) db =
     (case save self (setattr manual_order_attempt ''user'' VNone) ''user'' db of
        Inl e \<Rightarrow> (db, Some e)
      | Inr db' \<Rightarrow> unlock_loop self rest db')"

definition unlock_record ::
  "Admin \<Rightarrow> HttpRequest \<Rightarrow> QuerySet \<Rightarrow> State \<Rightarrow> State \<times> (error + unit)" where
  "unlock_record self request queryset st =
     (case unlock_loop self (rows queryset (objects st)) (objects st) of
        (db, Some e) \<Rightarrow> (st\<lparr>objects := db\<rparr>, Inl e)
      | (db, None) \<Rightarrow>
          (case values_list (model_reference_key self) (rows queryset db) of
             Inl e \<Rightarrow> (st\<lparr>objects := db\<rparr>, Inl e)
           | Inr model_references \<Rightarrow>
               (case join '', '' model_references of
                  Inl e \<Rightarrow> (st\<lparr>objects := db\<rparr>, Inl e)
                | Inr model_references_str \<Rightarrow>
                    (message_user (st\<lparr>objects := db\<rparr>)
                       (''Successfully unlocked the following records: '' @ model_references_str)
                       SUCCESS,
                     Inr ()))))"

text \<open>
  \<^verbatim>\<open>
  def _get_changeview_url(self, obj):
      return reverse(f"admin:{app_label}_{model_name}_change", args=[obj.pk])
  \<close>
\<close>

definition get_changeview_url :: "Admin \<Rightarrow> Model \<Rightarrow> url" where
  "get_changeview_url self obj =
     Reverse (''admin:'' @ app_label self @ ''_'' @ model_name self @ ''_change'') (pk obj)"

text \<open>
  \<^verbatim>\<open>
  def lock_record(self, request, queryset):
      all_records_for_user = queryset.union(
          self.model.objects.filter(**{self.user_field: request.user.pk}))
      if all_records_for_user.count() > self.max_records_lockable:
          self.message_user(request, message=self.max_records_warning_msg,
                            level=messages.ERROR)
          # return None
      record = queryset.get()
      return redirect(self._get_changeview_url(record))
  \<close>
\<close>

definition lock_record ::
  "Admin \<Rightarrow> HttpRequest \<Rightarrow> QuerySet \<Rightarrow> State \<Rightarrow> State \<times> (error + response)" where
  "lock_record self request queryset st =
     (case req_user request of
        None \<Rightarrow> (st, Inl AttributeError)
      | Some ru \<Rightarrow>
          (let all_records_for_user =
                 queryset_union (rows queryset (objects st))
                   (filter (held_by self (user_id ru)) (objects st));
               st1 = (if int (length all_records_for_user) > max_records_lockable self
                      then message_user st (max_records_warning_msg self) ERROR
                      else st)
           in (case get_one (rows queryset (objects st)) of
                 Inl e \<Rightarrow> (st1, Inl e)
               | Inr record \<Rightarrow> (st1, Inr (HttpResponseRedirect (get_changeview_url self record))))))"

text \<open>
  \<^verbatim>\<open>
  def is_locked_by(self, obj):
      user = getattr(obj, self.user_field)
      if not user:
          return "-"
      if not user.first_name and not user.last_name:
          log.warning(...)
          return user.username
      return f"{user.first_name} {user.last_name}"
  \<close>
\<close>

definition is_locked_by :: "Admin \<Rightarrow> Model \<Rightarrow> State \<Rightarrow> State \<times> (error + string)" where
  "is_locked_by self obj st =
     (case getattr obj (user_field self) of
        Inl e \<Rightarrow> (st, Inl e)
      | Inr user \<Rightarrow>
          (if \<not> truthy user then (st, Inr ''-'')
           else (case user of
                   VUser u \<Rightarrow>
                     (if first_name u = [] \<and> last_name u = []
                      then (st\<lparr>log_warnings := log_warnings st @
                                 [''The user `'' @ username u @
                                  ''` has no first or last name set. Please set their user '' @
                                  ''details for improved visibility of who'' @ [CHR 0x27] @
                                  ''s locked a manual order.'']\<rparr>,
                            Inr (username u))
                      else (st, Inr (first_name u @ '' '' @ last_name u)))
                 | _ \<Rightarrow> (st, Inl AttributeError))))"

section \<open>The access gate\<close>

definition has_view_permission :: "Admin \<Rightarrow> HttpRequest \<Rightarrow> Model option \<Rightarrow> bool" where
  "has_view_permission self request obj = True"

text \<open>
  \<^verbatim>\<open>
  def has_change_permission(self, request, obj=None):
      if not obj:
          return True
      return not self.is_locked(request, obj=obj)
  \<close>
\<close>

definition has_change_permission ::
  "Admin \<Rightarrow> HttpRequest \<Rightarrow> Model option \<Rightarrow> error + bool" where
  "has_change_permission self request obj =
     (case obj of
        None \<Rightarrow> Inr True
      | Some ob \<Rightarrow> (case is_locked self request ob of Inl e \<Rightarrow> Inl e | Inr b \<Rightarrow> Inr (\<not> b)))"

text \<open>
  \<open>super().change_view(request, object_id)\<close> is \<open>ModelAdmin.change_view\<close>. For the
  request that opens a record it loads the object, asks \<open>has_view_permission\<close> or
  \<open>has_change_permission\<close> (the two hooks overridden above) and renders the change
  form, editable iff \<open>has_change_permission\<close> holds and read-only otherwise.
\<close>

definition super_change_view ::
  "Admin \<Rightarrow> HttpRequest \<Rightarrow> int \<Rightarrow> State \<Rightarrow> State \<times> (error + response)" where
  "super_change_view self request object_id st =
     (case objects_get (objects st) object_id of
        Inl e \<Rightarrow> (st, Inl e)
      | Inr obj \<Rightarrow>
          (case has_change_permission self request (Some obj) of
             Inl e \<Rightarrow> (st, Inl e)
           | Inr editable \<Rightarrow> (st, Inr (TemplateResponse editable))))"

text \<open>
  \<^verbatim>\<open>
  def change_view(self, request, object_id, form_url="", extra_context=None):
      model = self.model.objects.get(id=object_id)
      user: User = getattr(model, self.user_field)
      if not user:
          setattr(model, self.user_field, request.user)
          model.save(update_fields=[self.user_field])
          return super().change_view(request, object_id)
      elif self.is_locked(request, model):
          self.message_user(request, message=self.locked_error_msg, level=messages.ERROR)
          if not self.allow_view_permissions:
              return HttpResponseRedirect("../../")
      return super().change_view(request, object_id)
  \<close>
\<close>

definition user_val :: "User option \<Rightarrow> val" where
  "user_val u = (case u of None \<Rightarrow> VNone | Some x \<Rightarrow> VUser x)"

definition change_view ::
  "Admin \<Rightarrow> HttpRequest \<Rightarrow> int \<Rightarrow> State \<Rightarrow> State \<times> (error + response)" where
  "change_view self request object_id st =
     (case objects_get (objects st) object_id of
        Inl e \<Rightarrow> (st, Inl e)
      | Inr model \<Rightarrow>
          (case getattr model (user_field self) of
             Inl e \<Rightarrow> (st, Inl e)
           | Inr user \<Rightarrow>
               (if \<not> truthy user then
                  (case save self (setattr model (user_field self) (user_val (req_user request)))
                          (user_field self) (objects st) of
                     Inl e \<Rightarrow> (st, Inl e)
                   | Inr db \<Rightarrow> super_change_view self request object_id (st\<lparr>objects := db\<rparr>))
                else
                  (case is_locked self request model of
                     Inl e \<Rightarrow> (st, Inl e)
                   | Inr True \<Rightarrow>
                       (let st1 = message_user st (locked_error_msg self) ERROR
                        in if \<not> allow_view_permissions self
                           then (st1, Inr (HttpResponseRedirect (Path ''../../'')))
                           else super_change_view self request object_id st1)
                   | Inr False \<Rightarrow> super_change_view self request object_id st))))"

section \<open>The unlock permission\<close>

text \<open>
  \<^verbatim>\<open>
  def _set_unlock_permission(self):
      if not self.unlock_record_action_permission:
          return
      full_codename = get_permission_codename(
          self.unlock_record_action_permission.codename, self.opts)
      if not Permission.objects.filter(codename=full_codename).count():
          content_type = ContentType.objects.get_for_model(self.model)
          Permission.objects.create(codename=full_codename,
              name=self.unlock_record_action_permission.description,
              content_type=content_type)
      AdminLockingMixin.unlock_record.allowed_permissions = [
          self.unlock_record_action_permission.codename]
  \<close>
\<close>

definition set_unlock_permission :: "Admin \<Rightarrow> State \<Rightarrow> State" where
  "set_unlock_permission self st =
     (case unlock_record_action_permission self of
        None \<Rightarrow> st
      | Some p \<Rightarrow>
          (let full_codename = get_permission_codename (codename p) self;
               st1 = (if length (filter (\<lambda>q. perm_codename q = full_codename) (permissions st)) = 0
                      then st\<lparr>permissions := permissions st @
                                [\<lparr>perm_codename = full_codename,
                                  perm_name = description p,
                                  perm_content_type = (app_label self, model_name self)\<rparr>]\<rparr>
                      else st)
           in st1\<lparr>allowed_permissions := Some [codename p]\<rparr>))"

text \<open>
  \<^verbatim>\<open>
  def has_unlock_permission(self, request):
      if not self.unlock_record_action_permission:
          return True
      codename = get_permission_codename(
          self.unlock_record_action_permission.codename, self.opts)
      user: User = get_object_or_404(User, pk=request.user.id)
      return user.has_perm("%s.%s" % (self.opts.app_label, codename))
  \<close>
\<close>

definition has_unlock_permission :: "Admin \<Rightarrow> HttpRequest \<Rightarrow> State \<Rightarrow> error + bool" where
  "has_unlock_permission self request st =
     (case unlock_record_action_permission self of
        None \<Rightarrow> Inr True
      | Some p \<Rightarrow>
          (let codename = get_permission_codename (codename p) self
           in (case req_user request of
                 None \<Rightarrow> Inl AttributeError
               | Some ru \<Rightarrow>
                   (case get_object_or_404 (auth_users st) (user_id ru) of
                      Inl e \<Rightarrow> Inl e
                    | Inr user \<Rightarrow> Inr (has_perm user (app_label self @ ''.'' @ codename))))))"

section \<open>Setup\<close>

text \<open>
  \<^verbatim>\<open>
  def _validate_user_field(self):
      if not hasattr(self.model, self.user_field):
          raise ValueError(...)
      elif getattr(self.model, self.user_field).field.related_model != User:
          raise ValueError(...)
      return None
  \<close>
\<close>

definition validate_user_field :: "Admin \<Rightarrow> error + unit" where
  "validate_user_field self =
     (case map_of (model_attrs self) (user_field self) of
        None \<Rightarrow> Inl ValueError
      | Some OtherAttr \<Rightarrow> Inl AttributeError
      | Some (FieldAttr related_model) \<Rightarrow>
          (if related_model \<noteq> Some UserTable then Inl ValueError else Inr ()))"

definition LOCKED_BY_COLUMN :: string where "LOCKED_BY_COLUMN = ''is_locked_by''"
definition UNLOCK_RECORD :: string where "UNLOCK_RECORD = ''unlock_record''"
definition LOCK_RECORD :: string where "LOCK_RECORD = ''lock_record''"

text \<open>
  The registration of a column or an action in \<open>__init__\<close>:
  \<^verbatim>\<open>
  if not xs: xs = (name,)
  elif name not in xs: xs += (name,)
  \<close>
\<close>

definition register :: "string \<Rightarrow> string list \<Rightarrow> string list" where
  "register name xs = (if xs = [] then [name] else if name \<notin> set xs then xs @ [name] else xs)"

text \<open>
  \<open>__init__\<close>: registers the column and the two actions, names the actions, then
  validates the user field. An exception leaves no admin object.
\<close>

definition init :: "Admin \<Rightarrow> State \<Rightarrow> State \<times> (error + Admin)" where
  "init self st =
     (let self1 = self\<lparr>list_display := register LOCKED_BY_COLUMN (list_display self)\<rparr>;
          self2 = self1\<lparr>actions := register UNLOCK_RECORD (actions self1)\<rparr>;
          st1 = st\<lparr>unlock_short_description := Some (unlock_record_action_name self2)\<rparr>;
          self3 = self2\<lparr>actions := register LOCK_RECORD (actions self2)\<rparr>;
          st2 = st1\<lparr>lock_short_description := Some (lock_record_action_name self3)\<rparr>
      in (case validate_user_field self3 of
            Inl e \<Rightarrow> (st2, Inl e)
          | Inr u \<Rightarrow> (st2, Inr self3)))"

text \<open>
  The class attributes of \<open>AdminLockingMixin\<close>. The class body is executed once:
  the f-string of \<open>max_records_warning_msg\<close> reads the \<open>max_records_lockable\<close> of that
  class body. \<open>list_display\<close> and \<open>actions\<close> are the ones inherited from
  \<open>ModelAdmin\<close>; the model and its options are given at registration.
\<close>

definition class_max_records_lockable :: int where
  "class_max_records_lockable = 1"

definition AdminLockingMixin :: "(string \<times> class_attr) list \<Rightarrow> string \<Rightarrow> string \<Rightarrow> Admin" where
  "AdminLockingMixin model_fields app model =
     \<lparr>allow_view_permissions = False,
      model_reference_key = ''pk'',
      max_records_lockable = class_max_records_lockable,
      max_records_warning_msg =
        ''You can only lock upto '' @ str_int class_max_records_lockable @ '' record(s)'',
      locked_error_msg = ''This record is locked. Please try again later.'',
      user_field = ''user'',
      locking_help = None,
      lock_record_action_name = ''Lock Record'',
      unlock_record_action_name = ''Unlock Record'',
      unlock_record_action_permission =
        Some \<lparr>codename = ''unlock'', description = ''Can unlock a record.''\<rparr>,
      list_display = [''__str__''],
      actions = [],
      model_attrs = model_fields,
      app_label = app,
      model_name = model\<rparr>"

section \<open>Example data\<close>

text \<open>
  Two users, the fields of an order model with a \<open>user\<close> foreign key, its admin
  with the class defaults, and a table in which Alice holds order 1 while orders 2
  and 3 are unheld.
\<close>

definition alice :: User where
  "alice = \<lparr>user_id = 1, first_name = ''Alice'', last_name = ''Ames'',
            username = ''alice'', user_perms = []\<rparr>"

definition bob :: User where
  "bob = \<lparr>user_id = 2, first_name = ''Bob'', last_name = ''Bell'',
          username = ''bob'', user_perms = []\<rparr>"

definition order_fields :: "(string \<times> class_attr) list" where
  "order_fields = [(''user'', FieldAttr (Some UserTable)), (''reference'', FieldAttr None)]"

definition order_admin :: Admin where
  "order_admin = AdminLockingMixin order_fields ''shop'' ''order''"

definition order1 :: Model where
  "order1 = \<lparr>pk = 1, attrs = [(''user'', VUser alice), (''reference'', VStr ''R1'')]\<rparr>"

definition order2 :: Model where
  "order2 = \<lparr>pk = 2, attrs = [(''user'', VNone), (''reference'', VStr ''R2'')]\<rparr>"

definition order3 :: Model where
  "order3 = \<lparr>pk = 3, attrs = [(''user'', VNone), (''reference'', VStr ''R3'')]\<rparr>"

definition store :: "Model list \<Rightarrow> State" where
  "store db = \<lparr>objects = db, auth_users = [alice, bob], permissions = [], flashed = [],
               log_warnings = [], allowed_permissions = None,
               unlock_short_description = None, lock_short_description = None\<rparr>"

definition as_user :: "User \<Rightarrow> HttpRequest" where
  "as_user u = \<lparr>req_user = Some u\<rparr>"

text \<open>
  A ticket model whose lock holder is the \<open>owner\<close> field and which also has a
  \<open>user\<close> field (the customer), with its admin; and Carol, whose stored
  permissions include the unlock permission of the order model while the copy
  cached on her request object does not.
\<close>

definition ticket_fields :: "(string \<times> class_attr) list" where
  "ticket_fields = [(''owner'', FieldAttr (Some UserTable)), (''user'', FieldAttr (Some UserTable)),
                    (''reference'', FieldAttr None)]"

definition ticket_admin :: Admin where
  "ticket_admin = (AdminLockingMixin ticket_fields ''desk'' ''ticket'')
                    \<lparr>model_reference_key := ''reference'', user_field := ''owner''\<rparr>"

definition ticket1 :: Model where
  "ticket1 = \<lparr>pk = 1, attrs = [(''owner'', VUser alice), (''user'', VUser bob),
                              (''reference'', VStr ''T1'')]\<rparr>"

definition carol_stored :: User where
  "carol_stored = \<lparr>user_id = 3, first_name = ''Carol'', last_name = ''Cole'',
                   username = ''carol'', user_perms = [''shop.unlock_order'']\<rparr>"

definition carol_cached :: User where
  "carol_cached = carol_stored\<lparr>user_perms := []\<rparr>"

lemmas example_defs =
  alice_def bob_def order_fields_def order_admin_def order1_def order2_def order3_def
  store_def as_user_def AdminLockingMixin_def class_max_records_lockable_def

lemmas example_defs2 = ticket_fields_def ticket_admin_def ticket1_def

section \<open>Auxiliary facts\<close>

lemma is_locked_of_holder:
  "getattr obj (user_field self) = Inr (VUser holder) \<Longrightarrow> req_user request = Some actor \<Longrightarrow>
   is_locked self request obj = Inr (user_id holder \<noteq> user_id actor)"
  by (simp add: is_locked_def)

lemma get_one_single: "get_one xs = Inr x \<longleftrightarrow> xs = [x]"
  by (cases xs rule: get_one.cases) auto

lemma objects_get_member:
  assumes "objects_get db oid = Inr m"
  shows "m \<in> set db" and "pk m = oid"
proof -
  from assms have "filter (\<lambda>r. pk r = oid) db = [m]"
    by (simp add: objects_get_def get_one_single)
  then have "m \<in> set (filter (\<lambda>r. pk r = oid) db)" by simp
  then show "m \<in> set db" and "pk m = oid" by simp_all
qed

lemma objects_get_map:
  assumes "objects_get db oid = Inr m" and "\<And>r. pk (f r) = pk r"
  shows "objects_get (map f db) oid = Inr (f m)"
proof -
  from assms(1) have sel: "filter (\<lambda>r. pk r = oid) db = [m]"
    by (simp add: objects_get_def get_one_single)
  have "filter (\<lambda>r. pk r = oid) (map f db) = map f (filter (\<lambda>r. pk r = oid) db)"
    by (simp add: filter_map o_def assms(2))
  with sel show ?thesis by (simp add: objects_get_def)
qed

lemma save_holder:
  assumes "objects_get db oid = Inr m" and "concrete_field self name"
  shows "save self (setattr m name v) name db =
         Inr (map (\<lambda>r. if pk r = oid then setattr r name v else r) db)"
proof -
  from objects_get_member[OF assms(1)] have "pk m \<in> pk ` set db" and "pk m = oid" by auto
  then show ?thesis using assms(2)
    by (simp add: save_def setattr_def update_conv')
qed

lemma getattr_setattr: "getattr (setattr m name v) name = Inr v"
  by (simp add: getattr_def setattr_def update_conv')

lemma change_view_unheld:
  assumes g: "objects_get (objects st) oid = Inr m"
    and c: "concrete_field self (user_field self)"
    and u: "req_user request = Some actor"
    and h: "getattr m (user_field self) = Inr VNone"
  shows "change_view self request oid st =
         (st\<lparr>objects := map (\<lambda>r. if pk r = oid then setattr r (user_field self) (VUser actor) else r)
                            (objects st)\<rparr>,
          Inr (TemplateResponse True))"
proof -
  let ?f = "\<lambda>r. if pk r = oid then setattr r (user_field self) (VUser actor) else r"
  have pkf: "\<And>r. pk (?f r) = pk r" by (simp add: setattr_def)
  have g': "objects_get (map ?f (objects st)) oid = Inr (?f m)"
    by (rule objects_get_map[OF g pkf])
  have fm: "?f m = setattr m (user_field self) (VUser actor)"
    using objects_get_member(2)[OF g] by simp
  have l: "is_locked self request (setattr m (user_field self) (VUser actor)) = Inr False"
    using is_locked_of_holder[OF getattr_setattr u] by simp
  have s: "super_change_view self request oid (st\<lparr>objects := map ?f (objects st)\<rparr>) =
        (st\<lparr>objects := map ?f (objects st)\<rparr>, Inr (TemplateResponse True))"
    using g' fm l by (simp add: super_change_view_def has_change_permission_def)
  show ?thesis
    using g h u s save_holder[OF g c, of "VUser actor"]
    by (simp add: change_view_def user_val_def)
qed

lemma change_view_held:
  assumes g: "objects_get (objects st) oid = Inr m"
    and u: "req_user request = Some actor"
    and h: "getattr m (user_field self) = Inr (VUser holder)"
  shows "change_view self request oid st =
         (if user_id holder = user_id actor then (st, Inr (TemplateResponse True))
          else (message_user st (locked_error_msg self) ERROR,
                Inr (if allow_view_permissions self then TemplateResponse False
                     else HttpResponseRedirect (Path ''../../''))))"
proof -
  have l: "is_locked self request m = Inr (user_id holder \<noteq> user_id actor)"
    by (rule is_locked_of_holder[OF h u])
  have s: "\<And>st'. objects st' = objects st \<Longrightarrow> super_change_view self request oid st' =
        (st', Inr (TemplateResponse (user_id holder = user_id actor)))"
    using g l by (simp add: super_change_view_def has_change_permission_def)
  show ?thesis
    using g h l s[of st] s[of "message_user st (locked_error_msg self) ERROR"]
    by (simp add: change_view_def message_user_def)
qed

lemma count_union_card:
  "int (length (queryset_union a (filter P db))) = int (card (set a \<union> {r \<in> set db. P r}))"
  by (simp add: queryset_union_def length_remdups_card_conv)

lemma card_example:
  "card (set (rows [2] (objects (store [order1, order2])))
         \<union> {r \<in> set (objects (store [order1, order2])). held_by order_admin (user_id alice) r}) = 2"
proof -
  have "set (rows [2] (objects (store [order1, order2]))) = {order2}"
    by (simp add: rows_def example_defs)
  moreover have "{r \<in> set (objects (store [order1, order2])). held_by order_admin (user_id alice) r} = {order1}"
    by (auto simp add: held_by_def example_defs)
  moreover have "order1 \<noteq> order2" by (simp add: example_defs)
  ultimately show ?thesis by simp
qed

lemma card_example3:
  "card (set (rows [2, 3] (objects (store [order1, order2, order3])))
         \<union> {r \<in> set (objects (store [order1, order2, order3])).
             held_by (order_admin\<lparr>max_records_lockable := 2\<rparr>) (user_id alice) r}) = 3"
proof -
  have "set (rows [2, 3] (objects (store [order1, order2, order3]))) = {order2, order3}"
    by (simp add: rows_def example_defs)
  moreover have "{r \<in> set (objects (store [order1, order2, order3])).
             held_by (order_admin\<lparr>max_records_lockable := 2\<rparr>) (user_id alice) r} = {order1}"
    by (auto simp add: held_by_def example_defs)
  moreover have "order1 \<noteq> order2" "order1 \<noteq> order3" "order2 \<noteq> order3"
    by (simp_all add: example_defs)
  ultimately show ?thesis by simp
qed

lemma snd_init: "snd (init self st) =
   (case validate_user_field self of Inl e \<Rightarrow> Inl e
    | Inr u \<Rightarrow> Inr (self\<lparr>list_display := register LOCKED_BY_COLUMN (list_display self),
                     actions := register LOCK_RECORD (register UNLOCK_RECORD (actions self))\<rparr>))"
  by (simp add: init_def Let_def validate_user_field_def split: sum.splits option.splits class_attr.splits)

lemma set_unlock_permission_twice:
  "set_unlock_permission self (set_unlock_permission self st) = set_unlock_permission self st"
  by (cases "unlock_record_action_permission self")
     (simp_all add: set_unlock_permission_def Let_def)

lemma set_unlock_permission_funpow:
  "0 < n \<Longrightarrow> (set_unlock_permission self ^^ n) st = set_unlock_permission self st"
proof (induction n)
  case 0
  then show ?case by simp
next
  case (Suc n)
  show ?case
  proof (cases "n = 0")
    case True
    then show ?thesis by simp
  next
    case False
    with Suc.IH have "(set_unlock_permission self ^^ n) st = set_unlock_permission self st"
      by simp
    then show ?thesis by (simp add: set_unlock_permission_twice)
  qed
qed

lemma set_unlock_permission_count:
  assumes "unlock_record_action_permission self = Some p"
  shows "length (filter (\<lambda>q. perm_codename q = get_permission_codename (codename p) self)
                   (permissions (set_unlock_permission self st))) =
         max 1 (length (filter (\<lambda>q. perm_codename q = get_permission_codename (codename p) self)
                   (permissions st)))"
proof (cases "filter (\<lambda>q. perm_codename q = get_permission_codename (codename p) self)
                   (permissions st)")
  case Nil
  with assms show ?thesis by (simp add: set_unlock_permission_def Let_def)
next
  case (Cons q qs)
  with assms show ?thesis by (simp add: set_unlock_permission_def Let_def)
qed

section \<open>The claims\<close>

text \<open>
  C1, evaluated on the class defaults: Bob asks about order 2, which nobody holds.
  \<open>user\<close> is \<open>None\<close> there and \<open>user.id\<close> raises \<open>AttributeError\<close>, where
  \<open>change_view\<close> and \<open>is_locked_by\<close> test \<open>not user\<close> first. \<open>has_change_permission\<close>
  tests only \<open>not obj\<close> and hands the unheld record to \<open>is_locked\<close>, so it raises too.
\<close>

theorem is_locked_empty_holder:
  "getattr order2 (user_field order_admin) = Inr VNone
   \<and> is_locked order_admin (as_user bob) order2 = Inl AttributeError
   \<and> has_change_permission order_admin (as_user bob) (Some order2) = Inl AttributeError"
  by (simp add: has_change_permission_def is_locked_def getattr_def example_defs)

text \<open>
  C2: \<open>change_view\<close> is the three-state step. For a logged-in actor opening an
  existing record of a model whose user field is a concrete field:
  on an unheld record the holder becomes the actor and the form is editable;
  on a record the actor holds the form is editable and the state is unchanged;
  on a record another actor holds the only change of state is the flashed
  \<open>locked_error_msg\<close> (so the holder stays), and the response is the redirect
  when \<open>allow_view_permissions\<close> is off and the read-only form when it is on.
\<close>

theorem change_view_three_states:
  assumes "objects_get (objects st) object_id = Inr model"
    and "concrete_field self (user_field self)"
    and "req_user request = Some actor"
  shows "(getattr model (user_field self) = Inr VNone \<longrightarrow>
            change_view self request object_id st =
              (st\<lparr>objects := map (\<lambda>r. if pk r = object_id
                                        then setattr r (user_field self) (VUser actor) else r)
                                 (objects st)\<rparr>,
               Inr (TemplateResponse True)))
       \<and> (\<forall>holder. getattr model (user_field self) = Inr (VUser holder) \<longrightarrow>
            user_id holder = user_id actor \<longrightarrow>
            change_view self request object_id st = (st, Inr (TemplateResponse True)))
       \<and> (\<forall>holder. getattr model (user_field self) = Inr (VUser holder) \<longrightarrow>
            user_id holder \<noteq> user_id actor \<longrightarrow>
            change_view self request object_id st =
              (st\<lparr>flashed := flashed st @ [(ERROR, locked_error_msg self)]\<rparr>,
               Inr (if allow_view_permissions self then TemplateResponse False
                    else HttpResponseRedirect (Path ''../../''))))"
  using change_view_unheld[OF assms] change_view_held[OF assms(1) assms(3)]
  by (simp add: message_user_def)

theorem change_view_three_states_witness:
  "objects_get (objects (store [order1, order2])) 2 = Inr order2
   \<and> objects_get (objects (store [order1, order2])) 1 = Inr order1
   \<and> concrete_field order_admin (user_field order_admin)
   \<and> req_user (as_user bob) = Some bob
   \<and> change_view order_admin (as_user bob) 2 (store [order1, order2]) =
       (store [order1, order2\<lparr>attrs := [(''user'', VUser bob), (''reference'', VStr ''R2'')]\<rparr>],
        Inr (TemplateResponse True))
   \<and> change_view order_admin (as_user alice) 1 (store [order1, order2]) =
       (store [order1, order2], Inr (TemplateResponse True))
   \<and> change_view order_admin (as_user bob) 1 (store [order1, order2]) =
       ((store [order1, order2])\<lparr>flashed := [(ERROR, ''This record is locked. Please try again later.'')]\<rparr>,
        Inr (HttpResponseRedirect (Path ''../../'')))"
proof -
  have g2: "objects_get (objects (store [order1, order2])) 2 = Inr order2"
    and g1: "objects_get (objects (store [order1, order2])) 1 = Inr order1"
    by (simp_all add: objects_get_def example_defs)
  have c: "concrete_field order_admin (user_field order_admin)"
    by (simp add: concrete_field_def example_defs)
  have b: "req_user (as_user bob) = Some bob" and a: "req_user (as_user alice) = Some alice"
    by (simp_all add: as_user_def)
  have h2: "getattr order2 (user_field order_admin) = Inr VNone"
    and h1: "getattr order1 (user_field order_admin) = Inr (VUser alice)"
    by (simp_all add: getattr_def example_defs)
  note t2 = change_view_three_states[OF g2 c b]
  note t1a = change_view_three_states[OF g1 c a]
  note t1b = change_view_three_states[OF g1 c b]
  have r2: "change_view order_admin (as_user bob) 2 (store [order1, order2]) =
       (store [order1, order2\<lparr>attrs := [(''user'', VUser bob), (''reference'', VStr ''R2'')]\<rparr>],
        Inr (TemplateResponse True))"
    using t2 h2 by (simp add: setattr_def example_defs)
  have r1a: "change_view order_admin (as_user alice) 1 (store [order1, order2]) =
       (store [order1, order2], Inr (TemplateResponse True))"
    using t1a h1 by simp
  have r1b: "change_view order_admin (as_user bob) 1 (store [order1, order2]) =
       ((store [order1, order2])\<lparr>flashed := [(ERROR, ''This record is locked. Please try again later.'')]\<rparr>,
        Inr (HttpResponseRedirect (Path ''../../'')))"
    using t1b h1 by (simp add: example_defs)
  show ?thesis using g2 g1 c b r2 r1a r1b by simp
qed

text \<open>
  C3, evaluated on the class defaults: Bob unlocks order 1, which Alice holds. The
  holder is cleared and saved, then \<open>", ".join\<close> meets the integer primary key that
  the default \<open>model_reference_key = "pk"\<close> selects and raises \<open>TypeError\<close>: no
  success message is flashed and the action does not return.
\<close>

theorem unlock_record_default_reference:
  "unlock_record order_admin (as_user bob) [1] (store [order1, order2]) =
     (store [order1\<lparr>attrs := [(''user'', VNone), (''reference'', VStr ''R1'')]\<rparr>, order2],
      Inl TypeError)"
  by (simp add: unlock_record_def rows_def save_def setattr_def concrete_field_def
      value_of_def join_def example_defs)

text \<open>
  C4, as stated, fails: with \<open>max_records_lockable = 2\<close>, Alice holding order 1 and
  the target set of orders 2 and 3, the warning is flashed and then \<open>queryset.get()\<close>
  raises \<open>MultipleObjectsReturned\<close>; no record of the target set is acquired.
\<close>

theorem lock_record_many_counterexample:
  "lock_record (order_admin\<lparr>max_records_lockable := 2\<rparr>) (as_user alice) [2, 3]
     (store [order1, order2, order3]) =
   ((store [order1, order2, order3])
      \<lparr>flashed := [(ERROR, ''You can only lock upto 1 record(s)'')]\<rparr>,
    Inl MultipleObjectsReturned)"
  by (simp add: lock_record_def rows_def queryset_union_def held_by_def message_user_def Let_def
      str_int_def example_defs)

text \<open>
  C4, amended: when the quota check fails for a target set of exactly one record,
  the failure is only a flashed warning and \<open>lock_record\<close> still answers with the
  redirect to the change view of that record of the original target set, writing no
  holder itself; opening that change view then sets the holder of the record to the
  actor when the record is unheld.
\<close>

theorem lock_record_warns_and_continues:
  assumes "req_user request = Some actor"
    and "rows queryset (objects st) = [record]"
    and "int (card (set (rows queryset (objects st))
                    \<union> {r \<in> set (objects st). held_by self (user_id actor) r}))
         > max_records_lockable self"
  shows "lock_record self request queryset st =
           (st\<lparr>flashed := flashed st @ [(ERROR, max_records_warning_msg self)]\<rparr>,
            Inr (HttpResponseRedirect (get_changeview_url self record)))
       \<and> (objects_get (objects st) (pk record) = Inr record \<longrightarrow>
          concrete_field self (user_field self) \<longrightarrow>
          getattr record (user_field self) = Inr VNone \<longrightarrow>
          objects (fst (change_view self request (pk record)
                          (fst (lock_record self request queryset st)))) =
            map (\<lambda>r. if pk r = pk record then setattr r (user_field self) (VUser actor) else r)
                (objects st))"
proof -
  let ?st1 = "st\<lparr>flashed := flashed st @ [(ERROR, max_records_warning_msg self)]\<rparr>"
  have l: "lock_record self request queryset st =
           (?st1, Inr (HttpResponseRedirect (get_changeview_url self record)))"
    using assms by (simp add: lock_record_def Let_def count_union_card message_user_def)
  have "objects (fst (change_view self request (pk record) ?st1)) =
            map (\<lambda>r. if pk r = pk record then setattr r (user_field self) (VUser actor) else r)
                (objects st)"
    if g: "objects_get (objects st) (pk record) = Inr record"
      and c: "concrete_field self (user_field self)"
      and h: "getattr record (user_field self) = Inr VNone"
  proof -
    from g have g': "objects_get (objects ?st1) (pk record) = Inr record" by simp
    show ?thesis using change_view_unheld[OF g' c assms(1) h] by simp
  qed
  with l show ?thesis by simp
qed

theorem lock_record_warns_and_continues_witness:
  "req_user (as_user alice) = Some alice
   \<and> rows [2] (objects (store [order1, order2])) = [order2]
   \<and> objects_get (objects (store [order1, order2])) (pk order2) = Inr order2
   \<and> concrete_field order_admin (user_field order_admin)
   \<and> getattr order2 (user_field order_admin) = Inr VNone
   \<and> lock_record order_admin (as_user alice) [2] (store [order1, order2]) =
       ((store [order1, order2])\<lparr>flashed := [(ERROR, ''You can only lock upto 1 record(s)'')]\<rparr>,
        Inr (HttpResponseRedirect (Reverse ''admin:shop_order_change'' 2)))
   \<and> objects (fst (change_view order_admin (as_user alice) 2
                      (fst (lock_record order_admin (as_user alice) [2] (store [order1, order2])))))
       = [order1, order2\<lparr>attrs := [(''user'', VUser alice), (''reference'', VStr ''R2'')]\<rparr>]"
proof -
  have a: "req_user (as_user alice) = Some alice" by (simp add: as_user_def)
  have r: "rows [2] (objects (store [order1, order2])) = [order2]"
    by (simp add: rows_def example_defs)
  have q: "int (card (set (rows [2] (objects (store [order1, order2])))
             \<union> {r \<in> set (objects (store [order1, order2])). held_by order_admin (user_id alice) r}))
           > max_records_lockable order_admin"
    by (simp only: card_example) (simp add: example_defs)
  have g: "objects_get (objects (store [order1, order2])) (pk order2) = Inr order2"
    by (simp add: objects_get_def example_defs)
  have c: "concrete_field order_admin (user_field order_admin)"
    by (simp add: concrete_field_def example_defs)
  have h: "getattr order2 (user_field order_admin) = Inr VNone"
    by (simp add: getattr_def example_defs)
  have p: "pk order2 = 2" by (simp add: order2_def)
  have w: "max_records_warning_msg order_admin = ''You can only lock upto 1 record(s)''"
    by (simp add: str_int_def example_defs)
  have u: "get_changeview_url order_admin order2 = Reverse ''admin:shop_order_change'' 2"
    by (simp add: get_changeview_url_def example_defs)
  have f: "flashed (store [order1, order2]) = []" and o: "objects (store [order1, order2]) = [order1, order2]"
    by (simp_all add: store_def)
  have s: "setattr order2 (user_field order_admin) (VUser alice) =
           order2\<lparr>attrs := [(''user'', VUser alice), (''reference'', VStr ''R2'')]\<rparr>"
    by (simp add: setattr_def order2_def order_admin_def AdminLockingMixin_def)
  have p1: "pk order1 = 1" by (simp add: order1_def)
  note t = lock_record_warns_and_continues[OF a r q]
  have t1: "lock_record order_admin (as_user alice) [2] (store [order1, order2]) =
       ((store [order1, order2])\<lparr>flashed := [(ERROR, ''You can only lock upto 1 record(s)'')]\<rparr>,
        Inr (HttpResponseRedirect (Reverse ''admin:shop_order_change'' 2)))"
    using t by (simp add: w u f)
  have t2: "objects (fst (change_view order_admin (as_user alice) 2
                      (fst (lock_record order_admin (as_user alice) [2] (store [order1, order2])))))
       = [order1, order2\<lparr>attrs := [(''user'', VUser alice), (''reference'', VStr ''R2'')]\<rparr>]"
  proof -
    from t g c h have "objects (fst (change_view order_admin (as_user alice) (pk order2)
                      (fst (lock_record order_admin (as_user alice) [2] (store [order1, order2])))))
       = map (\<lambda>r. if pk r = pk order2 then setattr r (user_field order_admin) (VUser alice) else r)
             (objects (store [order1, order2]))"
      by blast
    then show ?thesis by (simp add: p p1 o s)
  qed
  show ?thesis using a r g c h t1 t2 by simp
qed

text \<open>
  C5: for a logged-in actor, \<open>lock_record\<close> flashes \<open>max_records_warning_msg\<close> at
  level \<open>ERROR\<close> exactly when the number of records in the union of the target
  records and the records the actor already holds exceeds \<open>max_records_lockable\<close>,
  and flashes nothing otherwise. The witness is the case of
  \<open>max_records_lockable = 1\<close>, one record held and one further record targeted.
\<close>

theorem lock_record_quota_message:
  assumes "req_user request = Some actor"
  shows "flashed (fst (lock_record self request queryset st)) =
         flashed st @
         (if int (card (set (rows queryset (objects st))
                        \<union> {r \<in> set (objects st). held_by self (user_id actor) r}))
             > max_records_lockable self
          then [(ERROR, max_records_warning_msg self)] else [])"
  using assms
  by (simp add: lock_record_def Let_def count_union_card message_user_def split: sum.splits)

theorem lock_record_quota_message_witness:
  "req_user (as_user alice) = Some alice
   \<and> max_records_lockable order_admin = 1
   \<and> filter (held_by order_admin (user_id alice)) (objects (store [order1, order2])) = [order1]
   \<and> rows [2] (objects (store [order1, order2])) = [order2]
   \<and> flashed (fst (lock_record order_admin (as_user alice) [2] (store [order1, order2]))) =
       [(ERROR, max_records_warning_msg order_admin)]"
proof -
  have a: "req_user (as_user alice) = Some alice" by (simp add: as_user_def)
  have m: "max_records_lockable order_admin = 1" by (simp add: example_defs)
  have h: "filter (held_by order_admin (user_id alice)) (objects (store [order1, order2])) = [order1]"
    by (simp add: held_by_def example_defs)
  have r: "rows [2] (objects (store [order1, order2])) = [order2]"
    by (simp add: rows_def example_defs)
  have f: "flashed (store [order1, order2]) = []" by (simp add: store_def)
  have t: "flashed (fst (lock_record order_admin (as_user alice) [2] (store [order1, order2]))) =
       [(ERROR, max_records_warning_msg order_admin)]"
    using lock_record_quota_message[OF a, of order_admin "[2]" "store [order1, order2]"]
    by (simp only: card_example f m) simp
  show ?thesis using a m h r t by simp
qed

text \<open>
  C6: \<open>has_unlock_permission\<close> returns true for every request when no unlock
  permission is configured. When one is configured, for a logged-in actor whose row
  is in the \<open>User\<close> table it returns true iff the permission set of that stored
  row contains \<open>app_label.codename_modelname\<close>; the permission set cached on the
  request's user object has no influence on the result.
\<close>

theorem has_unlock_permission_fresh:
  "(unlock_record_action_permission self = None \<longrightarrow>
      has_unlock_permission self request st = Inr True)
   \<and> (\<forall>p actor stored.
        unlock_record_action_permission self = Some p \<longrightarrow>
        req_user request = Some actor \<longrightarrow>
        get_object_or_404 (auth_users st) (user_id actor) = Inr stored \<longrightarrow>
        has_unlock_permission self request st =
          Inr (app_label self @ ''.'' @ codename p @ ''_'' @ model_name self
               \<in> set (user_perms stored))
        \<and> has_unlock_permission self \<lparr>req_user = Some (actor\<lparr>user_perms := cached\<rparr>)\<rparr> st =
          has_unlock_permission self request st)"
  by (simp add: has_unlock_permission_def get_permission_codename_def has_perm_def Let_def)

theorem has_unlock_permission_fresh_witness:
  "unlock_record_action_permission (order_admin\<lparr>unlock_record_action_permission := None\<rparr>) = None
   \<and> has_unlock_permission (order_admin\<lparr>unlock_record_action_permission := None\<rparr>)
        (as_user bob) (store []) = Inr True
   \<and> unlock_record_action_permission order_admin =
        Some \<lparr>codename = ''unlock'', description = ''Can unlock a record.''\<rparr>
   \<and> req_user (as_user carol_cached) = Some carol_cached
   \<and> user_perms carol_cached = []
   \<and> get_object_or_404 (auth_users ((store [])\<lparr>auth_users := [alice, carol_stored]\<rparr>))
        (user_id carol_cached) = Inr carol_stored
   \<and> has_unlock_permission order_admin (as_user carol_cached)
        ((store [])\<lparr>auth_users := [alice, carol_stored]\<rparr>) = Inr True
   \<and> get_object_or_404 (auth_users ((store [])\<lparr>auth_users := [alice, carol_stored]\<rparr>))
        (user_id alice) = Inr alice
   \<and> has_unlock_permission order_admin (as_user alice)
        ((store [])\<lparr>auth_users := [alice, carol_stored]\<rparr>) = Inr False"
proof -
  let ?none = "order_admin\<lparr>unlock_record_action_permission := None\<rparr>"
  let ?st = "(store [])\<lparr>auth_users := [alice, carol_stored]\<rparr>"
  let ?p = "\<lparr>codename = ''unlock'', description = ''Can unlock a record.''\<rparr>"
  have n: "unlock_record_action_permission ?none = None" by simp
  have p: "unlock_record_action_permission order_admin = Some ?p"
    by (simp add: example_defs)
  have c: "req_user (as_user carol_cached) = Some carol_cached"
    and a: "req_user (as_user alice) = Some alice"
    by (simp_all add: as_user_def)
  have e: "user_perms carol_cached = []" by (simp add: carol_cached_def)
  have gc: "get_object_or_404 (auth_users ?st) (user_id carol_cached) = Inr carol_stored"
    by (simp add: get_object_or_404_def carol_cached_def carol_stored_def alice_def)
  have ga: "get_object_or_404 (auth_users ?st) (user_id alice) = Inr alice"
    by (simp add: get_object_or_404_def carol_stored_def alice_def)
  have q: "app_label order_admin @ ''.'' @ codename ?p @ ''_'' @ model_name order_admin
           = ''shop.unlock_order''"
    by (simp add: example_defs)
  have r0: "has_unlock_permission ?none (as_user bob) (store []) = Inr True"
    using has_unlock_permission_fresh[of ?none "as_user bob" "store []"] n by blast
  have r1: "has_unlock_permission order_admin (as_user carol_cached) ?st = Inr True"
  proof -
    from has_unlock_permission_fresh[of order_admin "as_user carol_cached" ?st] p c gc
    have "has_unlock_permission order_admin (as_user carol_cached) ?st =
          Inr (app_label order_admin @ ''.'' @ codename ?p @ ''_'' @ model_name order_admin
               \<in> set (user_perms carol_stored))"
      by blast
    then show ?thesis unfolding q by (simp add: carol_stored_def)
  qed
  have r2: "has_unlock_permission order_admin (as_user alice) ?st = Inr False"
  proof -
    from has_unlock_permission_fresh[of order_admin "as_user alice" ?st] p a ga
    have "has_unlock_permission order_admin (as_user alice) ?st =
          Inr (app_label order_admin @ ''.'' @ codename ?p @ ''_'' @ model_name order_admin
               \<in> set (user_perms alice))"
      by blast
    then show ?thesis unfolding q by (simp add: alice_def)
  qed
  show ?thesis using n p c e gc ga r0 r1 r2 by simp
qed

text \<open>
  C7, as stated, fails: \<open>__init__\<close> does not look at the quota. With
  \<open>max_records_lockable = 0\<close> and a valid user field it returns the admin.
\<close>

theorem init_quota_counterexample:
  "max_records_lockable (order_admin\<lparr>max_records_lockable := 0\<rparr>) \<le> 0
   \<and> snd (init (order_admin\<lparr>max_records_lockable := 0\<rparr>) (store [])) =
       Inr (order_admin\<lparr>max_records_lockable := 0,
                         list_display := [''__str__'', ''is_locked_by''],
                         actions := [''unlock_record'', ''lock_record'']\<rparr>)"
  by (simp add: init_def validate_user_field_def register_def Let_def LOCKED_BY_COLUMN_def
      UNLOCK_RECORD_def LOCK_RECORD_def example_defs)

text \<open>
  C7, amended: \<open>__init__\<close> raises \<open>ValueError\<close> when \<open>user_field\<close> is not an attribute of
  the model, and when it is a field whose related model is not \<open>User\<close>; when it is a
  foreign key to \<open>User\<close> setup succeeds, whatever the quota.
\<close>

theorem init_validates_user_field:
  "(map_of (model_attrs self) (user_field self) = None \<longrightarrow>
      snd (init self st) = Inl ValueError)
   \<and> (\<forall>rel. map_of (model_attrs self) (user_field self) = Some (FieldAttr rel) \<longrightarrow>
        rel \<noteq> Some UserTable \<longrightarrow> snd (init self st) = Inl ValueError)
   \<and> (map_of (model_attrs self) (user_field self) = Some (FieldAttr (Some UserTable)) \<longrightarrow>
        \<not> isl (snd (init self st)))"
  by (simp add: snd_init validate_user_field_def)

theorem init_validates_user_field_witness:
  "map_of (model_attrs (order_admin\<lparr>user_field := ''owner''\<rparr>))
          (user_field (order_admin\<lparr>user_field := ''owner''\<rparr>)) = None
   \<and> snd (init (order_admin\<lparr>user_field := ''owner''\<rparr>) (store [])) = Inl ValueError
   \<and> map_of (model_attrs (order_admin\<lparr>user_field := ''reference''\<rparr>))
          (user_field (order_admin\<lparr>user_field := ''reference''\<rparr>)) = Some (FieldAttr None)
   \<and> snd (init (order_admin\<lparr>user_field := ''reference''\<rparr>) (store [])) = Inl ValueError
   \<and> map_of (model_attrs (order_admin\<lparr>max_records_lockable := - 3\<rparr>))
          (user_field (order_admin\<lparr>max_records_lockable := - 3\<rparr>)) = Some (FieldAttr (Some UserTable))
   \<and> \<not> isl (snd (init (order_admin\<lparr>max_records_lockable := - 3\<rparr>) (store [])))"
proof -
  have a: "map_of (model_attrs (order_admin\<lparr>user_field := ''owner''\<rparr>))
          (user_field (order_admin\<lparr>user_field := ''owner''\<rparr>)) = None"
    by (simp add: example_defs)
  have b: "map_of (model_attrs (order_admin\<lparr>user_field := ''reference''\<rparr>))
          (user_field (order_admin\<lparr>user_field := ''reference''\<rparr>)) = Some (FieldAttr None)"
    by (simp add: example_defs)
  have c: "map_of (model_attrs (order_admin\<lparr>max_records_lockable := - 3\<rparr>))
          (user_field (order_admin\<lparr>max_records_lockable := - 3\<rparr>)) = Some (FieldAttr (Some UserTable))"
    by (simp add: example_defs)
  have ra: "snd (init (order_admin\<lparr>user_field := ''owner''\<rparr>) (store [])) = Inl ValueError"
    using init_validates_user_field[of "order_admin\<lparr>user_field := ''owner''\<rparr>" "store []"] a
    by blast
  have rb: "snd (init (order_admin\<lparr>user_field := ''reference''\<rparr>) (store [])) = Inl ValueError"
    using init_validates_user_field[of "order_admin\<lparr>user_field := ''reference''\<rparr>" "store []"] b
    by blast
  have rc: "\<not> isl (snd (init (order_admin\<lparr>max_records_lockable := - 3\<rparr>) (store [])))"
    using init_validates_user_field[of "order_admin\<lparr>max_records_lockable := - 3\<rparr>" "store []"] c
    by blast
  show ?thesis using a b c ra rb rc by blast
qed

text \<open>
  C8: \<open>_set_unlock_permission\<close> is idempotent under repeated sequential calls. With a
  permission configured, the persisted codename being
  \<open>get_permission_codename(codename, opts)\<close>: if at most one \<open>Permission\<close> row has
  that codename, then after any number of calls at most one has; the first call
  creates the row, with the configured description, when none exists; and any
  positive number of calls leaves the same state as one call.
\<close>

theorem set_unlock_permission_idempotent:
  assumes "unlock_record_action_permission self = Some p"
  shows "(length (filter (\<lambda>q. perm_codename q = get_permission_codename (codename p) self)
                    (permissions st)) \<le> 1 \<longrightarrow>
          length (filter (\<lambda>q. perm_codename q = get_permission_codename (codename p) self)
                    (permissions ((set_unlock_permission self ^^ n) st))) \<le> 1)
       \<and> (filter (\<lambda>q. perm_codename q = get_permission_codename (codename p) self)
                  (permissions st) = [] \<longrightarrow>
          permissions (set_unlock_permission self st) =
            permissions st @ [\<lparr>perm_codename = get_permission_codename (codename p) self,
                               perm_name = description p,
                               perm_content_type = (app_label self, model_name self)\<rparr>])
       \<and> (0 < n \<longrightarrow> (set_unlock_permission self ^^ n) st = set_unlock_permission self st)"
proof (intro conjI impI)
  assume le: "length (filter (\<lambda>q. perm_codename q = get_permission_codename (codename p) self)
                    (permissions st)) \<le> 1"
  show "length (filter (\<lambda>q. perm_codename q = get_permission_codename (codename p) self)
                    (permissions ((set_unlock_permission self ^^ n) st))) \<le> 1"
  proof (cases "n = 0")
    case True
    with le show ?thesis by simp
  next
    case False
    then have "(set_unlock_permission self ^^ n) st = set_unlock_permission self st"
      by (simp add: set_unlock_permission_funpow)
    with le show ?thesis by (simp add: set_unlock_permission_count[OF assms])
  qed
next
  assume "filter (\<lambda>q. perm_codename q = get_permission_codename (codename p) self)
                  (permissions st) = []"
  with assms show "permissions (set_unlock_permission self st) =
            permissions st @ [\<lparr>perm_codename = get_permission_codename (codename p) self,
                               perm_name = description p,
                               perm_content_type = (app_label self, model_name self)\<rparr>]"
    by (simp add: set_unlock_permission_def Let_def)
next
  assume "0 < n"
  then show "(set_unlock_permission self ^^ n) st = set_unlock_permission self st"
    by (rule set_unlock_permission_funpow)
qed

theorem set_unlock_permission_idempotent_witness:
  "unlock_record_action_permission order_admin =
     Some \<lparr>codename = ''unlock'', description = ''Can unlock a record.''\<rparr>
   \<and> permissions (store []) = []
   \<and> permissions (set_unlock_permission order_admin (store [])) =
       [\<lparr>perm_codename = ''unlock_order'', perm_name = ''Can unlock a record.'',
         perm_content_type = (''shop'', ''order'')\<rparr>]
   \<and> (set_unlock_permission order_admin ^^ 3) (store []) =
       set_unlock_permission order_admin (store [])
   \<and> length (filter (\<lambda>q. perm_codename q = ''unlock_order'')
               (permissions ((set_unlock_permission order_admin ^^ 3) (store [])))) \<le> 1"
proof -
  let ?p = "\<lparr>codename = ''unlock'', description = ''Can unlock a record.''\<rparr>"
  have p: "unlock_record_action_permission order_admin = Some ?p"
    by (simp add: example_defs)
  have e: "permissions (store []) = []" by (simp add: store_def)
  have c: "get_permission_codename (codename ?p) order_admin = ''unlock_order''"
    by (simp add: get_permission_codename_def example_defs)
  have d: "description ?p = ''Can unlock a record.''"
    and l: "(app_label order_admin, model_name order_admin) = (''shop'', ''order'')"
    by (simp_all add: example_defs)
  note t = set_unlock_permission_idempotent[OF p, of "store []" 3, unfolded c d l e]
  have r1: "permissions (set_unlock_permission order_admin (store [])) =
       [\<lparr>perm_codename = ''unlock_order'', perm_name = ''Can unlock a record.'',
         perm_content_type = (''shop'', ''order'')\<rparr>]"
    using t by simp
  have r2: "(set_unlock_permission order_admin ^^ 3) (store []) =
       set_unlock_permission order_admin (store [])"
    using t by simp
  have r3: "length (filter (\<lambda>q. perm_codename q = ''unlock_order'')
               (permissions ((set_unlock_permission order_admin ^^ 3) (store [])))) \<le> 1"
    using t by simp
  show ?thesis using p e r1 r2 r3 by blast
qed

text \<open>
  C9, evaluated on an admin whose \<open>user_field\<close> is \<open>owner\<close>: Bob unlocks ticket 1,
  which Alice holds. \<open>unlock_record\<close> clears and saves the attribute literally named
  \<open>user\<close>: the customer of the ticket is erased and the holder is still Alice.
\<close>

theorem unlock_record_other_user_field:
  "unlock_record ticket_admin (as_user bob) [1] (store [ticket1]) =
     ((store [ticket1\<lparr>attrs := [(''owner'', VUser alice), (''user'', VNone),
                                 (''reference'', VStr ''T1'')]\<rparr>])
        \<lparr>flashed := [(SUCCESS, ''Successfully unlocked the following records: T1'')]\<rparr>,
      Inr ())"
  by (simp add: unlock_record_def rows_def save_def setattr_def concrete_field_def
      value_of_def join_def message_user_def example_defs example_defs2)

text \<open>
  C10: the default \<open>max_records_warning_msg\<close> was formatted in the class body from
  the class-level \<open>max_records_lockable = 1\<close>. For every configuration that keeps
  that message, whatever its \<open>max_records_lockable\<close>, the message flashed on a
  quota breach states the limit as 1.
\<close>

theorem default_warning_message_states_one:
  assumes "max_records_warning_msg self =
           max_records_warning_msg (AdminLockingMixin model_fields app model)"
    and "req_user request = Some actor"
    and "int (card (set (rows queryset (objects st))
                    \<union> {r \<in> set (objects st). held_by self (user_id actor) r}))
         > max_records_lockable self"
  shows "flashed (fst (lock_record self request queryset st)) =
         flashed st @ [(ERROR, ''You can only lock upto 1 record(s)'')]"
proof -
  have "max_records_warning_msg (AdminLockingMixin model_fields app model) =
        ''You can only lock upto 1 record(s)''"
    by (simp add: AdminLockingMixin_def class_max_records_lockable_def str_int_def)
  with assms show ?thesis
    by (simp add: lock_record_def Let_def count_union_card message_user_def split: sum.splits)
qed

theorem default_warning_message_states_one_witness:
  "max_records_lockable (order_admin\<lparr>max_records_lockable := 2\<rparr>) = 2
   \<and> max_records_warning_msg (order_admin\<lparr>max_records_lockable := 2\<rparr>) =
       max_records_warning_msg (AdminLockingMixin order_fields ''shop'' ''order'')
   \<and> req_user (as_user alice) = Some alice
   \<and> flashed (fst (lock_record (order_admin\<lparr>max_records_lockable := 2\<rparr>) (as_user alice) [2, 3]
                     (store [order1, order2, order3]))) =
       [(ERROR, ''You can only lock upto 1 record(s)'')]"
proof -
  let ?self = "order_admin\<lparr>max_records_lockable := 2\<rparr>"
  have m: "max_records_lockable ?self = 2" by simp
  have w: "max_records_warning_msg ?self =
           max_records_warning_msg (AdminLockingMixin order_fields ''shop'' ''order'')"
    by (simp add: order_admin_def)
  have a: "req_user (as_user alice) = Some alice" by (simp add: as_user_def)
  have q: "int (card (set (rows [2, 3] (objects (store [order1, order2, order3])))
             \<union> {r \<in> set (objects (store [order1, order2, order3])).
                 held_by ?self (user_id alice) r}))
           > max_records_lockable ?self"
    by (simp only: card_example3) simp
  have f: "flashed (store [order1, order2, order3]) = []" by (simp add: store_def)
  have t: "flashed (fst (lock_record ?self (as_user alice) [2, 3]
                     (store [order1, order2, order3]))) =
       [(ERROR, ''You can only lock upto 1 record(s)'')]"
    using default_warning_message_states_one[OF w a q] by (simp add: f)
  show ?thesis using m w a t by simp
qed

end
